theory Spec2Isabelle
  imports Main
begin

section \<open>Values exchanged with the Cognito SDK\<close>

text \<open>
  The JavaScript values the flow inspects with \<^verbatim>\<open>===\<close> and \<^verbatim>\<open>!==\<close>: attribute values,
  the \<^verbatim>\<open>mandatoryEmailVerification\<close> flag and the \<^verbatim>\<open>userConfirmed\<close> field. A field
  that is absent reads as \<open>JUndefined\<close>.
\<close>

datatype jsval = JUndefined | JNull | JBool bool | JNum int | JStr string

text \<open>
  An attribute object (\<^verbatim>\<open>{email: "a@b.com", ...}\<close>) as a value is the list of its own
  properties in the order \<^verbatim>\<open>Object.keys\<close> enumerates them; the keys of an object are
  distinct.
\<close>

type_synonym attributes = "(string \<times> jsval) list"

definition Object_keys :: "attributes \<Rightarrow> string list" where
  "Object_keys obj = map fst obj"

definition get_prop :: "attributes \<Rightarrow> string \<Rightarrow> jsval" where
  \<comment> \<open>\<^verbatim>\<open>obj[key]\<close> for an own key, or for a name that no prototype defines (the flows read
      own keys and \<^verbatim>\<open>email_verified\<close> only): the own value, or undefined\<close>
  "get_prop obj key = (case map_of obj key of None \<Rightarrow> JUndefined | Some v \<Rightarrow> v)"

subsection \<open>Assignment to a property\<close>

text \<open>
  \<^verbatim>\<open>Object.keys\<close> enumerates the array indices first, in ascending order, and then the
  other names in the order they were created. An array index is the decimal numeral of
  a number up to 4294967294, written without a sign and without leading zeros.
\<close>

definition digit :: "char \<Rightarrow> nat option" where
  "digit = map_of (zip ''0123456789'' [0, 1, 2, 3, 4, 5, 6, 7, 8, 9])"

fun digits_value :: "string \<Rightarrow> nat \<Rightarrow> nat option" where
  "digits_value [] acc = Some acc"
| "digits_value (c # cs) acc =
     (case digit c of None \<Rightarrow> None | Some d \<Rightarrow> digits_value cs (10 * acc + d))"

definition array_index :: "string \<Rightarrow> nat option" where
  "array_index key =
     (case key of
        [] \<Rightarrow> None
      | c # cs \<Rightarrow>
          if c = CHR ''0'' \<and> cs \<noteq> [] then None
          else (case digits_value key 0 of
                  None \<Rightarrow> None
                | Some n \<Rightarrow> if n \<le> 4294967294 then Some n else None))"

fun in_property_order :: "string list \<Rightarrow> bool" where
  \<comment> \<open>the keys of an object as \<^verbatim>\<open>Object.keys\<close> lists them: indices ascending, then names\<close>
  "in_property_order (k # k' # ks) =
     ((case array_index k' of
         None \<Rightarrow> True
       | Some j \<Rightarrow> (case array_index k of None \<Rightarrow> False | Some i \<Rightarrow> i < j))
      \<and> in_property_order (k' # ks))"
| "in_property_order ks = True"

text \<open>
  While properties are assigned, the prototype of the object matters: a plain \<^verbatim>\<open>{}\<close>
  inherits the accessor \<^verbatim>\<open>__proto__\<close> of \<^verbatim>\<open>Object.prototype\<close>, the only inherited property
  that an assignment does not shadow with an own property.
\<close>

datatype prototype = ObjectPrototype | NullPrototype

record js_object =
  own :: attributes
  proto :: prototype

fun update_own :: "attributes \<Rightarrow> string \<Rightarrow> jsval \<Rightarrow> attributes" where
  \<comment> \<open>an existing own property takes the new value and keeps its place\<close>
  "update_own [] key v = []"
| "update_own ((k, u) # ps) key v =
     (if k = key then (key, v) # ps else (k, u) # update_own ps key v)"

fun insert_index :: "nat \<Rightarrow> string \<Rightarrow> jsval \<Rightarrow> attributes \<Rightarrow> attributes" where
  \<comment> \<open>a new array index \<open>n\<close> goes after the smaller indices, before everything else\<close>
  "insert_index n key v [] = [(key, v)]"
| "insert_index n key v ((k, u) # ps) =
     (case array_index k of
        None \<Rightarrow> (key, v) # (k, u) # ps
      | Some i \<Rightarrow>
          if i < n then (k, u) # insert_index n key v ps else (key, v) # (k, u) # ps)"

definition add_own :: "attributes \<Rightarrow> string \<Rightarrow> jsval \<Rightarrow> attributes" where
  \<comment> \<open>a new own property: an array index in its numeric place, any other name last\<close>
  "add_own ps key v =
     (case array_index key of
        None \<Rightarrow> ps @ [(key, v)]
      | Some n \<Rightarrow> insert_index n key v ps)"

definition set_prop :: "js_object \<Rightarrow> string \<Rightarrow> jsval \<Rightarrow> js_object" where
  \<comment> \<open>\<^verbatim>\<open>obj[key] = value\<close>. Without an own \<^verbatim>\<open>__proto__\<close>, the inherited setter runs:
      it sets the prototype when the value is null (or an object, which \<open>jsval\<close> does
      not have) and does nothing for any other value\<close>
  "set_prop obj key v =
     (if key \<in> set (map fst (own obj)) then obj\<lparr>own := update_own (own obj) key v\<rparr>
      else if key = ''__proto__'' \<and> proto obj = ObjectPrototype
      then (if v = JNull then obj\<lparr>proto := NullPrototype\<rparr> else obj)
      else obj\<lparr>own := add_own (own obj) key v\<rparr>)"

text \<open>The wire form of one attribute: \<^verbatim>\<open>{Name, Value}\<close>, read back with getName and getValue.\<close>

datatype cognitoUserAttribute = Attribute (Name: string) (Value: jsval)

datatype userPool = UserPool string

datatype cognitoUser = CognitoUser (Username: string) (Pool: userPool)

datatype authenticationDetails = AuthenticationDetails string string

datatype cognitoUserSession = Session (getJwtToken: string)

record sdk_error =
  code :: string
  message :: string

datatype signUpResult = SignUpResult (userConfirmed: jsval) (result_user: cognitoUser)

text \<open>
  The configuration object. The argument \<open>config\<close> of every function below is a
  \<open>config option\<close>: \<open>None\<close> is \<^verbatim>\<open>undefined\<close> (or \<^verbatim>\<open>null\<close>), and a field that the object
  does not have is \<open>None\<close> (\<open>JUndefined\<close> for the flag).
\<close>

record config =
  region :: "string option"
  userPool :: "string option"
  identityPool :: "string option"
  mandatoryEmailVerification :: jsval

record identityCredentials =
  IdentityPoolId :: "string option"
  Logins :: "(string \<times> string) list"
  LoginId :: string

text \<open>
  What a promise is rejected with: a message string (\<^verbatim>\<open>err.message\<close>, or the fixed
  \<^verbatim>\<open>'user is null'\<close>), or the TypeError that reading a field of an undefined config
  throws.
\<close>

datatype reason = Message string | TypeError

section \<open>Actions\<close>

text \<open>
  Modelled from the spec: the action constructors of \<^verbatim>\<open>./actions\<close> (\<^verbatim>\<open>Action.login\<close>,
  \<^verbatim>\<open>Action.loginFailure\<close>, ...) are not among the sources. Each is the Outcome variant
  the spec names for it, carrying the arguments in the order the code passes them.
\<close>

datatype outcome =
    LoggedIn cognitoUser attributes
  | LoginFailure cognitoUser reason
  | MfaRequired cognitoUser
  | NewPasswordRequired cognitoUser
  | ConfirmationRequired cognitoUser
  | EmailVerificationRequired cognitoUser attributes
  | EmailVerificationFailed cognitoUser reason attributes
  | AttributesUpdated attributes

section \<open>Promises and the remote services\<close>

text \<open>
  The state a promise ends in. \<open>Pending\<close> is the promise on which neither
  \<^verbatim>\<open>resolve\<close> nor \<^verbatim>\<open>reject\<close> is ever called.
\<close>

datatype 'a settled = Resolved 'a | Rejected reason | Pending

text \<open>
  The completions of the two SDK calls that take a table of named callbacks.
  \<^verbatim>\<open>onSuccess\<close> of authenticateUser is called with the session.
\<close>

datatype authReply =
    AuthOnSuccess cognitoUserSession | AuthOnFailure sdk_error | AuthMfaRequired | AuthNewPasswordRequired

datatype codeReply = CodeOnSuccess | CodeInputVerificationCode | CodeOnFailure sdk_error

text \<open>
  The directory and the credential exchange are remote: each SDK method is a function of
  the remote state \<open>'s\<close> that returns the completion it calls back with and the new
  state. Every method calls back exactly once. A call with an \<^verbatim>\<open>(err, result)\<close> callback
  returns \<open>Inl err\<close> when \<^verbatim>\<open>err\<close> is set.
\<close>

record 's services =
  sdk_authenticateUser :: "cognitoUser \<Rightarrow> authenticationDetails \<Rightarrow> 's \<Rightarrow> authReply \<times> 's"
  sdk_getSession :: "cognitoUser \<Rightarrow> 's \<Rightarrow> (sdk_error + cognitoUserSession) \<times> 's"
  sdk_refresh :: "identityCredentials \<Rightarrow> 's \<Rightarrow> sdk_error option \<times> 's"
  sdk_getUserAttributes :: "cognitoUser \<Rightarrow> 's \<Rightarrow> (sdk_error + cognitoUserAttribute list) \<times> 's"
  sdk_getAttributeVerificationCode :: "cognitoUser \<Rightarrow> string \<Rightarrow> 's \<Rightarrow> codeReply \<times> 's"
  sdk_updateAttributes :: "cognitoUser \<Rightarrow> cognitoUserAttribute list \<Rightarrow> 's \<Rightarrow> sdk_error option \<times> 's"
  sdk_signUp ::
    "userPool \<Rightarrow> string \<Rightarrow> string \<Rightarrow> cognitoUserAttribute list \<Rightarrow> 's \<Rightarrow> (sdk_error + signUpResult) \<times> 's"
  sdk_changePassword :: "cognitoUser \<Rightarrow> string \<Rightarrow> string \<Rightarrow> 's \<Rightarrow> (sdk_error + string) \<times> 's"

text \<open>The remote calls a flow has made, in order, are recorded next to the remote state.\<close>

datatype call =
    Call_authenticateUser cognitoUser authenticationDetails
  | Call_getSession cognitoUser
  | Call_refresh identityCredentials
  | Call_getUserAttributes cognitoUser
  | Call_getAttributeVerificationCode cognitoUser string
  | Call_updateAttributes cognitoUser "cognitoUserAttribute list"
  | Call_signUp userPool string string "cognitoUserAttribute list"
  | Call_changePassword cognitoUser string string

record 's world =
  calls :: "call list"
  remote :: 's

definition invoke :: "call \<Rightarrow> ('s \<Rightarrow> 'r \<times> 's) \<Rightarrow> 's world \<Rightarrow> 'r \<times> 's world" where
  "invoke c method w =
     (case method (remote w) of (r, s') \<Rightarrow> (r, \<lparr>calls = calls w @ [c], remote = s'\<rparr>))"

text \<open>
  A function that returns a promise becomes a function from the world to the state its
  promise ends in and the world then. Inside an executor, \<^verbatim>\<open>resolve(v)\<close> and
  \<^verbatim>\<open>reject(e)\<close> settle the promise under construction; \<^verbatim>\<open>resolve(p)\<close> with a promise
  \<open>p\<close> makes it end as \<open>p\<close> does, which is \<open>p\<close> itself here.
\<close>

type_synonym ('a, 's) promise = "'s world \<Rightarrow> 'a settled \<times> 's world"

definition resolve :: "'a \<Rightarrow> ('a, 's) promise" where
  "resolve v w = (Resolved v, w)"

definition reject :: "reason \<Rightarrow> ('a, 's) promise" where
  "reject e w = (Rejected e, w)"

text \<open>
  \<^verbatim>\<open>p.then(onFulfilled, onRejected)\<close> written inside an executor, where the handlers
  settle the promise under construction: the handler that runs decides; while \<open>p\<close> is
  pending none runs.
\<close>

definition then_settle ::
  "'a settled \<times> 's world \<Rightarrow> ('a \<Rightarrow> ('b, 's) promise) \<Rightarrow> (reason \<Rightarrow> ('b, 's) promise)
     \<Rightarrow> 'b settled \<times> 's world" where
  "then_settle p onFulfilled onRejected =
     (case p of
        (Resolved v, w) \<Rightarrow> onFulfilled v w
      | (Rejected e, w) \<Rightarrow> onRejected e w
      | (Pending, w) \<Rightarrow> (Pending, w))"

text \<open>
  \<^verbatim>\<open>p.then(onFulfilled)\<close> with no second handler: a rejection of \<open>p\<close> passes to the
  promise that \<^verbatim>\<open>then\<close> returns, which the executor does not keep, so the promise under
  construction is never settled.
\<close>

definition no_handler :: "reason \<Rightarrow> ('b, 's) promise" where
  "no_handler e w = (Pending, w)"

section \<open>The authentication flows\<close>

definition changePassword ::
  "'s services \<Rightarrow> cognitoUser \<Rightarrow> string \<Rightarrow> string \<Rightarrow> (string, 's) promise" where
  "changePassword sv user oldPassword newPassword w =
     (case invoke (Call_changePassword user oldPassword newPassword)
             (sdk_changePassword sv user oldPassword newPassword) w of
        (Inl err, w') \<Rightarrow> reject (Message (message err)) w'
      | (Inr result, w') \<Rightarrow> resolve result w')"

definition sendAttributeVerificationCode ::
  "'s services \<Rightarrow> cognitoUser \<Rightarrow> string \<Rightarrow> (bool, 's) promise" where
  "sendAttributeVerificationCode sv user attribute w =
     (case invoke (Call_getAttributeVerificationCode user attribute)
             (sdk_getAttributeVerificationCode sv user attribute) w of
        (CodeOnSuccess, w') \<Rightarrow> resolve False w'
      | (CodeInputVerificationCode, w') \<Rightarrow> resolve True w'
      | (CodeOnFailure error, w') \<Rightarrow> reject (Message (message error)) w')"

fun assignAttributes :: "cognitoUserAttribute list \<Rightarrow> js_object \<Rightarrow> js_object" where
  \<comment> \<open>the \<^verbatim>\<open>for\<close> loop of getUserAttributes over \<^verbatim>\<open>result\<close>, with the object built so far\<close>
  "assignAttributes [] attributes = attributes"
| "assignAttributes (a # result) attributes =
     assignAttributes result (set_prop attributes (Name a) (Value a))"

definition collectAttributes :: "cognitoUserAttribute list \<Rightarrow> attributes \<Rightarrow> attributes" where
  \<comment> \<open>the loop run on a plain object with the given own properties (none in the source,
      which starts from \<^verbatim>\<open>{}\<close>); the value resolved is the own properties it ends with\<close>
  "collectAttributes result attributes =
     own (assignAttributes result \<lparr>own = attributes, proto = ObjectPrototype\<rparr>)"

definition getUserAttributes :: "'s services \<Rightarrow> cognitoUser \<Rightarrow> (attributes, 's) promise" where
  "getUserAttributes sv user w =
     (case invoke (Call_getUserAttributes user) (sdk_getUserAttributes sv user) w of
        (Inl error, w') \<Rightarrow> reject (Message (message error)) w'
      | (Inr result, w') \<Rightarrow> resolve (collectAttributes result []) w')"

definition emailVerificationFlow ::
  "'s services \<Rightarrow> cognitoUser \<Rightarrow> attributes \<Rightarrow> (outcome, 's) promise" where
  "emailVerificationFlow sv user attributes w =
     then_settle (sendAttributeVerificationCode sv user ''email'' w)
       (\<lambda>required.
          if required then resolve (EmailVerificationRequired user attributes)
          else resolve (LoggedIn user attributes))
       (\<lambda>error. resolve (EmailVerificationFailed user error attributes))"

definition emailVerificationIsMandatory :: "config option \<Rightarrow> bool" where
  "emailVerificationIsMandatory config =
     (\<not> (case config of
            None \<Rightarrow> False
          | Some c \<Rightarrow> mandatoryEmailVerification c = JBool False))"

definition loginOrVerifyEmail ::
  "'s services \<Rightarrow> cognitoUser \<Rightarrow> config option \<Rightarrow> (outcome, 's) promise" where
  "loginOrVerifyEmail sv user config w =
     then_settle (getUserAttributes sv user w)
       (\<lambda>attributes.
          if emailVerificationIsMandatory config
             \<and> get_prop attributes ''email_verified'' \<noteq> JStr ''true''
          then emailVerificationFlow sv user attributes
          else resolve (LoggedIn user attributes))
       no_handler"

definition template :: "string option \<Rightarrow> string" where
  \<comment> \<open>a field inside a template literal: an absent field prints as undefined\<close>
  "template field = (case field of None \<Rightarrow> ''undefined'' | Some s \<Rightarrow> s)"

definition buildLogins :: "string \<Rightarrow> string \<Rightarrow> config option \<Rightarrow> reason + identityCredentials" where
  \<comment> \<open>reading a field of an undefined config throws a TypeError\<close>
  "buildLogins username jwtToken config =
     (case config of
        None \<Rightarrow> Inl TypeError
      | Some c \<Rightarrow>
          (let loginDomain = ''cognito-idp.'' @ template (region c) @ ''.amazonaws.com'';
               loginUrl = loginDomain @ ''/'' @ template (userPool c)
           in Inr \<lparr>IdentityPoolId = identityPool c,
                    Logins = [(loginUrl, jwtToken)],
                    LoginId = username\<rparr>))"

definition refreshIdentityCredentials ::
  "'s services \<Rightarrow> string \<Rightarrow> string \<Rightarrow> config option \<Rightarrow> (unit, 's) promise" where
  \<comment> \<open>an exception thrown in the executor rejects the promise with it\<close>
  "refreshIdentityCredentials sv username jwtToken config w =
     (case buildLogins username jwtToken config of
        Inl thrown \<Rightarrow> reject thrown w
      | Inr logins \<Rightarrow>
          (case invoke (Call_refresh logins) (sdk_refresh sv logins) w of
             (Some error, w') \<Rightarrow> reject (Message (message error)) w'
           | (None, w') \<Rightarrow> resolve () w'))"

definition performLogin ::
  "'s services \<Rightarrow> cognitoUser option \<Rightarrow> config option \<Rightarrow> (outcome, 's) promise" where
  "performLogin sv user_or_null config w =
     (case user_or_null of
        Some user \<Rightarrow>
          (case invoke (Call_getSession user) (sdk_getSession sv user) w of
             (Inl err, w') \<Rightarrow> resolve (LoginFailure user (Message (message err))) w'
           | (Inr session, w') \<Rightarrow>
               (let jwtToken = getJwtToken session;
                    username = Username user
                in then_settle (refreshIdentityCredentials sv username jwtToken config w')
                     (\<lambda>_ w''. then_settle (loginOrVerifyEmail sv user config w'') resolve no_handler)
                     (\<lambda>message. resolve (LoginFailure user message))))
      | None \<Rightarrow> reject (Message ''user is null'') w)"

definition authenticate ::
  "'s services \<Rightarrow> string \<Rightarrow> string \<Rightarrow> userPool \<Rightarrow> config option \<Rightarrow> (outcome, 's) promise" where
  "authenticate sv username password pool config w =
     (let creds = AuthenticationDetails username password;
          user = CognitoUser username pool
      in case invoke (Call_authenticateUser user creds) (sdk_authenticateUser sv user creds) w of
           (AuthOnSuccess _, w') \<Rightarrow>
             then_settle (performLogin sv (Some user) config w') resolve no_handler
         | (AuthOnFailure error, w') \<Rightarrow>
             (if code error = ''UserNotConfirmedException''
              then resolve (ConfirmationRequired user) w'
              else resolve (LoginFailure user (Message (message error))) w')
         | (AuthMfaRequired, w') \<Rightarrow> resolve (MfaRequired user) w'
         | (AuthNewPasswordRequired, w') \<Rightarrow> resolve (NewPasswordRequired user) w')"

definition mkAttrList :: "attributes \<Rightarrow> cognitoUserAttribute list" where
  "mkAttrList attributes =
     map (\<lambda>key. Attribute key (get_prop attributes key)) (Object_keys attributes)"

definition updateAttributes ::
  "'s services \<Rightarrow> cognitoUser \<Rightarrow> attributes \<Rightarrow> config option \<Rightarrow> (outcome, 's) promise" where
  "updateAttributes sv user attributes config w =
     (let attributeList = mkAttrList attributes
      in case invoke (Call_updateAttributes user attributeList)
                (sdk_updateAttributes sv user attributeList) w of
           (Some err, w') \<Rightarrow> reject (Message (message err)) w'
         | (None, w') \<Rightarrow>
             (if emailVerificationIsMandatory config then loginOrVerifyEmail sv user config w'
              else resolve (AttributesUpdated attributes) w'))"

definition registerUser ::
  "'s services \<Rightarrow> userPool \<Rightarrow> config option \<Rightarrow> string \<Rightarrow> string \<Rightarrow> attributes
     \<Rightarrow> (outcome, 's) promise" where
  "registerUser sv pool config username password attributes w =
     (case invoke (Call_signUp pool username password (mkAttrList attributes))
             (sdk_signUp sv pool username password (mkAttrList attributes)) w of
        (Inl err, w') \<Rightarrow> reject (Message (message err)) w'
      | (Inr result, w') \<Rightarrow>
          (if userConfirmed result = JBool False
           then resolve (ConfirmationRequired (result_user result)) w'
           else authenticate sv username password pool config w'))"

section \<open>The authenticate of Login.jsx\<close>

text \<open>
  The form component has an authenticate of its own, which returns nothing and hands its
  actions to \<^verbatim>\<open>dispatch\<close>: the model returns the actions dispatched, in order. It builds
  the same credentials object as buildLogins; a TypeError thrown in its success callback
  leaves nothing dispatched. It also stores the credentials object in
  \<^verbatim>\<open>AWSCognito.config.credentials\<close>, which no action depends on and the model leaves out.
  \<^verbatim>\<open>postLoginDispatch\<close> of \<^verbatim>\<open>./utils\<close> is not among the sources and is a parameter.
\<close>

definition Login_authenticate ::
  "'s services \<Rightarrow> (cognitoUser \<Rightarrow> 's world \<Rightarrow> outcome list \<times> 's world)
     \<Rightarrow> string \<Rightarrow> string \<Rightarrow> userPool \<Rightarrow> config option
     \<Rightarrow> 's world \<Rightarrow> outcome list \<times> 's world" where
  "Login_authenticate sv postLoginDispatch username password pool config w =
     (let creds = AuthenticationDetails username password;
          user = CognitoUser username pool
      in case invoke (Call_authenticateUser user creds) (sdk_authenticateUser sv user creds) w of
           (AuthOnSuccess result, w') \<Rightarrow>
             (case buildLogins username (getJwtToken result) config of
                Inl thrown \<Rightarrow> ([], w')
              | Inr identityCredentials \<Rightarrow>
                  (case invoke (Call_refresh identityCredentials)
                          (sdk_refresh sv identityCredentials) w' of
                     (Some error, w'') \<Rightarrow> ([LoginFailure user (Message (message error))], w'')
                   | (None, w'') \<Rightarrow> postLoginDispatch user w''))
         | (AuthOnFailure error, w') \<Rightarrow> ([LoginFailure user (Message (message error))], w')
         | (AuthMfaRequired, w') \<Rightarrow> ([MfaRequired user], w')
         | (AuthNewPasswordRequired, w') \<Rightarrow> ([NewPasswordRequired user], w'))"

section \<open>Example services\<close>

text \<open>
  A directory and a credential exchange without state, for the concrete runs below:
  authentication, session, exchange, update and sign-up succeed, the fetched attributes
  say that the email is not verified, and the code request asks for the code to be
  entered. The other services differ from it in one method each.
\<close>

definition example_services :: "unit services" where
  "example_services =
     \<lparr>sdk_authenticateUser = (\<lambda>user creds s. (AuthOnSuccess (Session ''jwt''), s)),
      sdk_getSession = (\<lambda>user s. (Inr (Session ''jwt''), s)),
      sdk_refresh = (\<lambda>logins s. (None, s)),
      sdk_getUserAttributes =
        (\<lambda>user s. (Inr [Attribute ''email'' (JStr ''a@b.com''),
                         Attribute ''email_verified'' (JStr ''false'')], s)),
      sdk_getAttributeVerificationCode = (\<lambda>user attribute s. (CodeInputVerificationCode, s)),
      sdk_updateAttributes = (\<lambda>user attributeList s. (None, s)),
      sdk_signUp =
        (\<lambda>pool username password attributeList s.
           (Inr (SignUpResult (JBool True) (CognitoUser username pool)), s)),
      sdk_changePassword = (\<lambda>user oldPassword newPassword s. (Inr ''SUCCESS'', s))\<rparr>"

definition services_unconfirmed :: "unit services" where
  "services_unconfirmed =
     example_services\<lparr>sdk_authenticateUser :=
       (\<lambda>user creds s.
          (AuthOnFailure \<lparr>code = ''UserNotConfirmedException'',
                          message = ''User is not confirmed.''\<rparr>, s))\<rparr>"

definition services_wrong_password :: "unit services" where
  "services_wrong_password =
     example_services\<lparr>sdk_authenticateUser :=
       (\<lambda>user creds s.
          (AuthOnFailure \<lparr>code = ''NotAuthorizedException'',
                          message = ''Incorrect username or password.''\<rparr>, s))\<rparr>"

definition services_exchange_refused :: "unit services" where
  "services_exchange_refused =
     example_services\<lparr>sdk_refresh :=
       (\<lambda>logins s.
          (Some \<lparr>code = ''NotAuthorizedException'', message = ''Invalid login token.''\<rparr>, s))\<rparr>"

definition services_no_input_needed :: "unit services" where
  "services_no_input_needed =
     example_services\<lparr>sdk_getAttributeVerificationCode :=
       (\<lambda>user attribute s. (CodeOnSuccess, s))\<rparr>"

definition services_fetch_fails :: "unit services" where
  "services_fetch_fails =
     example_services\<lparr>sdk_getUserAttributes :=
       (\<lambda>user s. (Inl \<lparr>code = ''NetworkingError'', message = ''Network error''\<rparr>, s))\<rparr>"

definition services_update_refused :: "unit services" where
  "services_update_refused =
     example_services\<lparr>sdk_updateAttributes :=
       (\<lambda>user attributeList s.
          (Some \<lparr>code = ''InvalidParameterException'', message = ''Invalid email''\<rparr>, s))\<rparr>"

definition services_signUp_unconfirmed :: "unit services" where
  "services_signUp_unconfirmed =
     example_services\<lparr>sdk_signUp :=
       (\<lambda>pool username password attributeList s.
          (Inr (SignUpResult (JBool False) (CognitoUser username pool)), s))\<rparr>"

definition services_signUp_no_flag :: "unit services" where
  "services_signUp_no_flag =
     example_services\<lparr>sdk_signUp :=
       (\<lambda>pool username password attributeList s.
          (Inr (SignUpResult JUndefined (CognitoUser username pool)), s))\<rparr>"

definition services_signUp_refused :: "unit services" where
  "services_signUp_refused =
     example_services\<lparr>sdk_signUp :=
       (\<lambda>pool username password attributeList s.
          (Inl \<lparr>code = ''UsernameExistsException'', message = ''User already exists''\<rparr>, s))\<rparr>"

text \<open>A directory that keeps the attribute list it was last sent and echoes it.\<close>

definition echo_services :: "cognitoUserAttribute list services" where
  "echo_services =
     \<lparr>sdk_authenticateUser = (\<lambda>user creds s. (AuthOnSuccess (Session ''jwt''), s)),
      sdk_getSession = (\<lambda>user s. (Inr (Session ''jwt''), s)),
      sdk_refresh = (\<lambda>logins s. (None, s)),
      sdk_getUserAttributes = (\<lambda>user s. (Inr s, s)),
      sdk_getAttributeVerificationCode = (\<lambda>user attribute s. (CodeInputVerificationCode, s)),
      sdk_updateAttributes = (\<lambda>user attributeList s. (None, attributeList)),
      sdk_signUp =
        (\<lambda>pool username password attributeList s.
           (Inr (SignUpResult (JBool True) (CognitoUser username pool)), attributeList)),
      sdk_changePassword = (\<lambda>user oldPassword newPassword s. (Inr ''SUCCESS'', s))\<rparr>"

definition example_pool :: userPool where
  "example_pool = UserPool ''eu-west-1_example''"

definition alice :: cognitoUser where
  "alice = CognitoUser ''alice'' example_pool"

definition alice_creds :: authenticationDetails where
  "alice_creds = AuthenticationDetails ''alice'' ''pw''"

definition example_config :: config where
  "example_config =
     \<lparr>region = Some ''eu-west-1'', userPool = Some ''pool'', identityPool = Some ''idp'',
      mandatoryEmailVerification = JUndefined\<rparr>"

definition optional_config :: config where
  "optional_config = example_config\<lparr>mandatoryEmailVerification := JBool False\<rparr>"

definition example_logins :: identityCredentials where
  "example_logins =
     \<lparr>IdentityPoolId = Some ''idp'',
      Logins = [(''cognito-idp.eu-west-1.amazonaws.com/pool'', ''jwt'')],
      LoginId = ''alice''\<rparr>"

definition example_attributes :: attributes where
  "example_attributes = [(''email'', JStr ''a@b.com''), (''given_name'', JStr ''A'')]"

definition proto_attributes :: attributes where
  "proto_attributes = [(''__proto__'', JStr ''a''), (''email'', JStr ''a@b.com'')]"

definition fetched_list :: "cognitoUserAttribute list" where
  "fetched_list =
     [Attribute ''email'' (JStr ''a@b.com''), Attribute ''email_verified'' (JStr ''false'')]"

definition fetched_attributes :: attributes where
  "fetched_attributes = [(''email'', JStr ''a@b.com''), (''email_verified'', JStr ''false'')]"

definition start :: "unit world" where
  "start = \<lparr>calls = [], remote = ()\<rparr>"

definition echo_start :: "cognitoUserAttribute list world" where
  "echo_start = \<lparr>calls = [], remote = mkAttrList example_attributes\<rparr>"

section \<open>Lemmas\<close>

lemmas promise_defs = invoke_def resolve_def reject_def then_settle_def no_handler_def

lemmas object_defs = collectAttributes_def set_prop_def add_own_def array_index_def digit_def

lemmas flow_defs =
  authenticate_def performLogin_def refreshIdentityCredentials_def buildLogins_def template_def
  loginOrVerifyEmail_def emailVerificationIsMandatory_def emailVerificationFlow_def
  getUserAttributes_def sendAttributeVerificationCode_def updateAttributes_def registerUser_def
  mkAttrList_def Object_keys_def get_prop_def Let_def object_defs

lemmas scenario_defs =
  example_services_def services_unconfirmed_def services_wrong_password_def
  services_exchange_refused_def services_no_input_needed_def services_fetch_fails_def
  services_update_refused_def services_signUp_unconfirmed_def services_signUp_no_flag_def
  services_signUp_refused_def echo_services_def example_pool_def alice_def alice_creds_def
  example_config_def optional_config_def example_logins_def example_attributes_def
  fetched_list_def fetched_attributes_def start_def echo_start_def proto_attributes_def

lemma then_settle_simps:
  "then_settle (Resolved v, w) onFulfilled onRejected = onFulfilled v w"
  "then_settle (Rejected e, w) onFulfilled onRejected = onRejected e w"
  "then_settle (Pending, w) onFulfilled onRejected = (Pending, w)"
  by (simp_all add: then_settle_def)

lemma then_resolve_calls: "snd (then_settle p resolve no_handler) = snd p"
  by (simp add: promise_defs split: prod.splits settled.splits)

subsection \<open>The attribute codec\<close>

lemma update_own_keys: "map fst (update_own ps key v) = map fst ps"
  by (induction ps) auto

lemma map_of_update_own:
  "key \<in> fst ` set ps \<Longrightarrow> map_of (update_own ps key v) = (map_of ps)(key \<mapsto> v)"
proof (induction ps)
  case Nil
  then show ?case by simp
next
  case (Cons p ps)
  obtain k u where p: "p = (k, u)" by (cases p)
  show ?case
  proof (cases "k = key")
    case True
    then show ?thesis by (auto simp: p fun_eq_iff)
  next
    case False
    with Cons.prems p have "key \<in> fst ` set ps" by auto
    from Cons.IH [OF this] False show ?thesis by (auto simp: p fun_eq_iff)
  qed
qed

lemma insert_index_keys:
  "set (map fst (insert_index n key v ps)) = insert key (set (map fst ps))"
proof (induction ps)
  case Nil
  then show ?case by simp
next
  case (Cons p ps)
  obtain k u where p: "p = (k, u)" by (cases p)
  from Cons.IH show ?case by (cases "array_index k") (auto simp: p)
qed

lemma insert_index_distinct:
  "key \<notin> set (map fst ps) \<Longrightarrow> distinct (map fst ps) \<Longrightarrow>
     distinct (map fst (insert_index n key v ps))"
proof (induction ps)
  case Nil
  then show ?case by simp
next
  case (Cons p ps)
  obtain k u where p: "p = (k, u)" by (cases p)
  from Cons.prems p have "key \<notin> set (map fst ps)" "distinct (map fst ps)" by auto
  from Cons.IH [OF this] Cons.prems p insert_index_keys [of n key v ps] show ?case
    by (cases "array_index k") auto
qed

lemma map_of_insert_index:
  "key \<notin> set (map fst ps) \<Longrightarrow> map_of (insert_index n key v ps) = (map_of ps)(key \<mapsto> v)"
proof (induction ps)
  case Nil
  then show ?case by simp
next
  case (Cons p ps)
  obtain k u where p: "p = (k, u)" by (cases p)
  from Cons.prems p have fresh: "key \<notin> set (map fst ps)" and other: "k \<noteq> key" by auto
  from Cons.IH [OF fresh] other show ?case
    by (cases "array_index k") (auto simp: p fun_eq_iff)
qed

lemma map_of_snoc:
  "key \<notin> set (map fst ps) \<Longrightarrow> map_of (ps @ [(key, v)]) = (map_of ps)(key \<mapsto> v)"
proof (induction ps)
  case Nil
  then show ?case by simp
next
  case (Cons p ps)
  obtain k u where p: "p = (k, u)" by (cases p)
  from Cons.prems p have fresh: "key \<notin> set (map fst ps)" and other: "k \<noteq> key" by auto
  from Cons.IH [OF fresh] other show ?case
    by (auto simp: p fun_eq_iff simp del: map_of_append)
qed

lemma map_of_add_own:
  "key \<notin> set (map fst ps) \<Longrightarrow> map_of (add_own ps key v) = (map_of ps)(key \<mapsto> v)"
  by (cases "array_index key")
    (simp_all add: add_own_def map_of_insert_index map_of_snoc del: map_of_append)

lemma add_own_distinct:
  "key \<notin> set (map fst ps) \<Longrightarrow> distinct (map fst ps) \<Longrightarrow> distinct (map fst (add_own ps key v))"
  by (cases "array_index key") (simp_all add: add_own_def insert_index_distinct)

lemma set_prop_own_map:
  "key \<noteq> ''__proto__'' \<Longrightarrow> map_of (own (set_prop obj key v)) = (map_of (own obj))(key \<mapsto> v)"
proof (cases "key \<in> set (map fst (own obj))")
  case True
  then have "key \<in> fst ` set (own obj)" by simp
  from map_of_update_own [OF this] True show ?thesis by (simp add: set_prop_def)
next
  case False
  assume "key \<noteq> ''__proto__''"
  with False map_of_add_own [OF False] show ?thesis by (simp add: set_prop_def)
qed

lemma set_prop_distinct:
  "distinct (map fst (own obj)) \<Longrightarrow> distinct (map fst (own (set_prop obj key v)))"
  by (cases "key \<in> set (map fst (own obj))")
    (simp_all add: set_prop_def update_own_keys add_own_distinct)

lemma assignAttributes_distinct:
  "distinct (map fst (own obj)) \<Longrightarrow> distinct (map fst (own (assignAttributes result obj)))"
  by (induction result arbitrary: obj) (simp_all add: set_prop_distinct)

lemma assignAttributes_map:
  "distinct (map fst m) \<Longrightarrow> ''__proto__'' \<notin> fst ` set m \<Longrightarrow>
     map_of (own (assignAttributes (map (\<lambda>(k, v). Attribute k v) m) obj)) =
       map_of (own obj) ++ map_of m"
proof (induction m arbitrary: obj)
  case Nil
  then show ?case by simp
next
  case (Cons p m)
  obtain k v where p: "p = (k, v)" by (cases p)
  from Cons.prems p have k: "k \<noteq> ''__proto__''" and fresh: "k \<notin> dom (map_of m)"
    by (auto simp: dom_map_of_conv_image_fst)
  from Cons.prems have rest: "distinct (map fst m)" "''__proto__'' \<notin> fst ` set m" by auto
  have "map_of (own (assignAttributes (map (\<lambda>(k, v). Attribute k v) (p # m)) obj)) =
          map_of (own (assignAttributes (map (\<lambda>(k, v). Attribute k v) m) (set_prop obj k v)))"
    by (simp add: p)
  also have "\<dots> = map_of (own (set_prop obj k v)) ++ map_of m"
    by (rule Cons.IH [OF rest])
  also have "\<dots> = (map_of (own obj))(k \<mapsto> v) ++ map_of m"
    by (simp only: set_prop_own_map [OF k])
  also have "\<dots> = (map_of (own obj) ++ map_of m)(k \<mapsto> v)"
    by (rule map_add_upd_left [OF fresh])
  also have "\<dots> = map_of (own obj) ++ (map_of m)(k \<mapsto> v)"
    by (simp only: map_add_upd)
  also have "\<dots> = map_of (own obj) ++ map_of (p # m)"
    by (simp add: p)
  finally show ?case .
qed

lemma mkAttrList_pairs:
  "distinct (map fst m) \<Longrightarrow> mkAttrList m = map (\<lambda>(k, v). Attribute k v) m"
  by (auto simp: mkAttrList_def Object_keys_def get_prop_def)

text \<open>Keys that are already in property order are assigned one after the other.\<close>

lemma insert_index_last:
  "\<forall>k \<in> set (map fst ps). \<exists>i. array_index k = Some i \<and> i < n \<Longrightarrow>
     insert_index n key v ps = ps @ [(key, v)]"
proof (induction ps)
  case Nil
  then show ?case by simp
next
  case (Cons p ps)
  obtain k u where p: "p = (k, u)" by (cases p)
  from Cons.prems p obtain i where i: "array_index k = Some i" "i < n" by auto
  from Cons.prems have "\<forall>k \<in> set (map fst ps). \<exists>i. array_index k = Some i \<and> i < n" by simp
  from Cons.IH [OF this] i show ?case by (simp add: p)
qed

lemma in_property_order_tail: "in_property_order (k # ks) \<Longrightarrow> in_property_order ks"
  by (cases ks) simp_all

lemma in_property_order_prefix: "in_property_order (xs @ ys) \<Longrightarrow> in_property_order xs"
proof (induction xs)
  case Nil
  then show ?case by simp
next
  case (Cons x xs)
  from Cons.prems have "in_property_order (xs @ ys)"
    using in_property_order_tail [of x "xs @ ys"] by simp
  from Cons.IH [OF this] Cons.prems show ?case by (cases xs) simp_all
qed

lemma in_property_order_before_index:
  "in_property_order (ks @ [k]) \<Longrightarrow> array_index k = Some n \<Longrightarrow>
     \<forall>k' \<in> set ks. \<exists>i. array_index k' = Some i \<and> i < n"
proof (induction ks)
  case Nil
  then show ?case by simp
next
  case (Cons k1 ks)
  from Cons.prems(1) have tail: "in_property_order (ks @ [k])"
    using in_property_order_tail [of k1 "ks @ [k]"] by simp
  from Cons.IH [OF tail Cons.prems(2)]
  have all: "\<forall>k' \<in> set ks. \<exists>i. array_index k' = Some i \<and> i < n" .
  have "\<exists>i. array_index k1 = Some i \<and> i < n"
  proof (cases ks)
    case Nil
    with Cons.prems show ?thesis by (cases "array_index k1") simp_all
  next
    case (Cons k2 rest)
    with all obtain j where j: "array_index k2 = Some j" "j < n" by auto
    from Cons Cons.prems(1) j show ?thesis by (cases "array_index k1") auto
  qed
  with all show ?case by simp
qed

lemma add_own_last:
  assumes "in_property_order (map fst ps @ [key])"
  shows "add_own ps key v = ps @ [(key, v)]"
proof (cases "array_index key")
  case None
  then show ?thesis by (simp add: add_own_def)
next
  case (Some n)
  from in_property_order_before_index [OF assms Some]
  have "\<forall>k \<in> set (map fst ps). \<exists>i. array_index k = Some i \<and> i < n" .
  from insert_index_last [OF this] Some show ?thesis by (simp add: add_own_def)
qed

lemma assignAttributes_in_order:
  "in_property_order (map fst (acc @ m)) \<Longrightarrow> distinct (map fst (acc @ m)) \<Longrightarrow>
   ''__proto__'' \<notin> fst ` set m \<Longrightarrow>
     own (assignAttributes (map (\<lambda>(k, v). Attribute k v) m) \<lparr>own = acc, proto = p\<rparr>) = acc @ m"
proof (induction m arbitrary: acc)
  case Nil
  then show ?case by simp
next
  case (Cons q m)
  obtain k v where q: "q = (k, v)" by (cases q)
  from Cons.prems q have k: "k \<noteq> ''__proto__''" "k \<notin> set (map fst acc)" by auto
  from Cons.prems(1) q have "in_property_order ((map fst acc @ [k]) @ map fst m)" by simp
  then have "in_property_order (map fst acc @ [k])" by (rule in_property_order_prefix)
  then have step: "set_prop \<lparr>own = acc, proto = p\<rparr> k v = \<lparr>own = acc @ [(k, v)], proto = p\<rparr>"
    using k by (simp add: set_prop_def add_own_last)
  from Cons.prems q have "in_property_order (map fst ((acc @ [(k, v)]) @ m))"
    and "distinct (map fst ((acc @ [(k, v)]) @ m))" and "''__proto__'' \<notin> fst ` set m"
    by auto
  from Cons.IH [OF this] show ?case by (simp add: q step)
qed

subsection \<open>One step of each flow\<close>

lemma loginOrVerifyEmail_fetch_failure:
  assumes "sdk_getUserAttributes sv user (remote w) = (Inl error, s')"
  shows "loginOrVerifyEmail sv user config w =
           (Pending, \<lparr>calls = calls w @ [Call_getUserAttributes user], remote = s'\<rparr>)"
  using assms by (simp add: loginOrVerifyEmail_def getUserAttributes_def promise_defs)

lemma loginOrVerifyEmail_unverified:
  assumes "sdk_getUserAttributes sv user (remote w) = (Inr result, s1)"
    and "emailVerificationIsMandatory config"
    and "get_prop (collectAttributes result []) ''email_verified'' \<noteq> JStr ''true''"
    and "sdk_getAttributeVerificationCode sv user ''email'' s1 = (reply, s2)"
  shows "loginOrVerifyEmail sv user config w =
           (Resolved
              (case reply of
                 CodeOnSuccess \<Rightarrow> LoggedIn user (collectAttributes result [])
               | CodeInputVerificationCode \<Rightarrow>
                   EmailVerificationRequired user (collectAttributes result [])
               | CodeOnFailure error \<Rightarrow>
                   EmailVerificationFailed user (Message (message error))
                     (collectAttributes result [])),
            \<lparr>calls = calls w @ [Call_getUserAttributes user,
                                 Call_getAttributeVerificationCode user ''email''],
             remote = s2\<rparr>)"
  using assms
  by (simp add: loginOrVerifyEmail_def getUserAttributes_def emailVerificationFlow_def
        sendAttributeVerificationCode_def promise_defs split: codeReply.splits)

lemma loginOrVerifyEmail_login:
  assumes "sdk_getUserAttributes sv user (remote w) = (Inr result, s1)"
    and "\<not> emailVerificationIsMandatory config
         \<or> get_prop (collectAttributes result []) ''email_verified'' = JStr ''true''"
  shows "loginOrVerifyEmail sv user config w =
           (Resolved (LoggedIn user (collectAttributes result [])),
            \<lparr>calls = calls w @ [Call_getUserAttributes user], remote = s1\<rparr>)"
  using assms
  by (auto simp add: loginOrVerifyEmail_def getUserAttributes_def promise_defs)

lemma loginOrVerifyEmail_not_rejected:
  "fst (loginOrVerifyEmail sv user config w) \<noteq> Rejected e"
  by (simp add: loginOrVerifyEmail_def getUserAttributes_def emailVerificationFlow_def
        sendAttributeVerificationCode_def promise_defs
        split: prod.splits sum.splits codeReply.splits)

lemma performLogin_federated:
  assumes "sdk_getSession sv user (remote w) = (Inr session, s1)"
    and "buildLogins (Username user) (getJwtToken session) config = Inr logins"
    and "sdk_refresh sv logins s1 = (None, s2)"
  shows "performLogin sv (Some user) config w =
           then_settle
             (loginOrVerifyEmail sv user config
                \<lparr>calls = calls w @ [Call_getSession user, Call_refresh logins], remote = s2\<rparr>)
             resolve no_handler"
  using assms
  by (simp add: performLogin_def refreshIdentityCredentials_def invoke_def resolve_def
        then_settle_def Let_def)

lemma performLogin_refresh_failure:
  assumes "sdk_getSession sv user (remote w) = (Inr session, s1)"
    and "buildLogins (Username user) (getJwtToken session) config = Inr logins"
    and "sdk_refresh sv logins s1 = (Some error, s2)"
  shows "performLogin sv (Some user) config w =
           (Resolved (LoginFailure user (Message (message error))),
            \<lparr>calls = calls w @ [Call_getSession user, Call_refresh logins], remote = s2\<rparr>)"
  using assms
  by (simp add: performLogin_def refreshIdentityCredentials_def promise_defs Let_def)

lemma authenticate_onSuccess:
  assumes "sdk_authenticateUser sv (CognitoUser username pool)
             (AuthenticationDetails username password) (remote w) = (AuthOnSuccess result, s')"
  shows "authenticate sv username password pool config w =
           then_settle
             (performLogin sv (Some (CognitoUser username pool)) config
                \<lparr>calls = calls w @ [Call_authenticateUser (CognitoUser username pool)
                                      (AuthenticationDetails username password)],
                 remote = s'\<rparr>)
             resolve no_handler"
  using assms by (simp add: authenticate_def invoke_def Let_def)

lemma authenticate_onFailure:
  assumes "sdk_authenticateUser sv (CognitoUser username pool)
             (AuthenticationDetails username password) (remote w) = (AuthOnFailure error, s')"
  shows "authenticate sv username password pool config w =
           (Resolved (if code error = ''UserNotConfirmedException''
                      then ConfirmationRequired (CognitoUser username pool)
                      else LoginFailure (CognitoUser username pool) (Message (message error))),
            \<lparr>calls = calls w @ [Call_authenticateUser (CognitoUser username pool)
                                  (AuthenticationDetails username password)],
             remote = s'\<rparr>)"
  using assms by (simp add: authenticate_def promise_defs Let_def)

lemma authenticate_not_rejected:
  "fst (authenticate sv username password pool config w) \<noteq> Rejected e"
  by (simp add: authenticate_def Let_def promise_defs
        split: prod.splits authReply.splits settled.splits)

lemma authenticate_fetch_failure:
  assumes "sdk_authenticateUser sv (CognitoUser username pool)
             (AuthenticationDetails username password) (remote w) = (AuthOnSuccess result, s1)"
    and "sdk_getSession sv (CognitoUser username pool) s1 = (Inr session, s2)"
    and "buildLogins username (getJwtToken session) config = Inr logins"
    and "sdk_refresh sv logins s2 = (None, s3)"
    and "sdk_getUserAttributes sv (CognitoUser username pool) s3 = (Inl error, s4)"
  shows "fst (authenticate sv username password pool config w) = Pending"
  using assms
  by (simp add: authenticate_onSuccess performLogin_federated loginOrVerifyEmail_fetch_failure
        then_settle_simps)

lemma authenticate_undefined_config:
  assumes "sdk_authenticateUser sv (CognitoUser username pool)
             (AuthenticationDetails username password) (remote w) = (AuthOnSuccess result, s1)"
    and "sdk_getSession sv (CognitoUser username pool) s1 = (Inr session, s2)"
  shows "fst (authenticate sv username password pool None w) =
           Resolved (LoginFailure (CognitoUser username pool) TypeError)"
  using assms
  by (simp add: authenticate_onSuccess performLogin_def refreshIdentityCredentials_def
        buildLogins_def promise_defs Let_def)

lemma Login_authenticate_onFailure:
  assumes "sdk_authenticateUser sv (CognitoUser username pool)
             (AuthenticationDetails username password) (remote w) = (AuthOnFailure error, s')"
  shows "Login_authenticate sv postLoginDispatch username password pool config w =
           ([LoginFailure (CognitoUser username pool) (Message (message error))],
            \<lparr>calls = calls w @ [Call_authenticateUser (CognitoUser username pool)
                                  (AuthenticationDetails username password)],
             remote = s'\<rparr>)"
  using assms by (simp add: Login_authenticate_def invoke_def Let_def)

subsection \<open>The remote calls a flow makes\<close>

lemma loginOrVerifyEmail_calls:
  "\<exists>rest. calls (snd (loginOrVerifyEmail sv user config w)) = calls w @ rest"
  by (simp add: loginOrVerifyEmail_def getUserAttributes_def emailVerificationFlow_def
        sendAttributeVerificationCode_def promise_defs
        split: prod.splits sum.splits codeReply.splits)

lemma refreshIdentityCredentials_calls:
  "\<exists>rest. calls (snd (refreshIdentityCredentials sv username jwtToken config w)) = calls w @ rest"
  by (simp add: refreshIdentityCredentials_def promise_defs
        split: prod.splits sum.splits option.splits)

lemma performLogin_calls:
  "\<exists>rest. calls (snd (performLogin sv user_or_null config w)) = calls w @ rest"
proof (cases user_or_null)
  case None
  then show ?thesis by (simp add: performLogin_def reject_def)
next
  case (Some user)
  obtain r w1 where session: "invoke (Call_getSession user) (sdk_getSession sv user) w = (r, w1)"
    by (cases "invoke (Call_getSession user) (sdk_getSession sv user) w")
  then have w1: "calls w1 = calls w @ [Call_getSession user]"
    by (auto simp: invoke_def split: prod.splits)
  show ?thesis
  proof (cases r)
    case (Inl err)
    with Some session w1 show ?thesis by (simp add: performLogin_def resolve_def)
  next
    case (Inr session')
    obtain q w2 where refresh:
      "refreshIdentityCredentials sv (Username user) (getJwtToken session') config w1 = (q, w2)"
      by (cases "refreshIdentityCredentials sv (Username user) (getJwtToken session') config w1")
    from refreshIdentityCredentials_calls [of sv "Username user" "getJwtToken session'" config w1]
    obtain rest where w2: "calls w2 = calls w1 @ rest" by (auto simp: refresh)
    from loginOrVerifyEmail_calls [of sv user config w2]
    obtain rest' where gate: "calls (snd (loginOrVerifyEmail sv user config w2)) = calls w2 @ rest'"
      by auto
    from Some session Inr refresh w1 w2 gate show ?thesis
      by (cases q) (auto simp add: performLogin_def Let_def then_settle_simps
            then_resolve_calls resolve_def)
  qed
qed

lemma authenticate_first_call:
  "\<exists>rest. calls (snd (authenticate sv username password pool config w)) =
     calls w @ Call_authenticateUser (CognitoUser username pool)
                 (AuthenticationDetails username password) # rest"
proof -
  let ?user = "CognitoUser username pool"
  let ?creds = "AuthenticationDetails username password"
  obtain r w1 where auth:
    "invoke (Call_authenticateUser ?user ?creds) (sdk_authenticateUser sv ?user ?creds) w = (r, w1)"
    by (cases "invoke (Call_authenticateUser ?user ?creds) (sdk_authenticateUser sv ?user ?creds) w")
  then have w1: "calls w1 = calls w @ [Call_authenticateUser ?user ?creds]"
    by (auto simp: invoke_def split: prod.splits)
  from performLogin_calls [of sv "Some ?user" config w1]
  obtain rest where login: "calls (snd (performLogin sv (Some ?user) config w1)) = calls w1 @ rest"
    by auto
  from auth w1 login show ?thesis
    by (cases r) (simp_all add: authenticate_def Let_def then_resolve_calls resolve_def)
qed

section \<open>The claims\<close>

subsection \<open>Every flow yields one Outcome\<close>

text \<open>
  C1 (the code departs from the claim): the claim is that authenticate settles with exactly
  one Outcome whatever the remote services answer. The promise of authenticate is never
  rejected (\<open>authenticate_not_rejected\<close>), but it is not always settled: when
  authentication, session fetch and credential exchange succeed and the attribute fetch
  fails, loginOrVerifyEmail never calls \<^verbatim>\<open>resolve\<close>, and authenticate stays pending after
  its four remote calls. The run below is that case.
\<close>

theorem authenticate_never_settles:
  "authenticate services_fetch_fails ''alice'' ''pw'' example_pool (Some example_config) start =
     (Pending,
      \<lparr>calls = [Call_authenticateUser alice alice_creds, Call_getSession alice,
                Call_refresh example_logins, Call_getUserAttributes alice],
       remote = ()\<rparr>)"
  by (simp add: flow_defs promise_defs scenario_defs)

subsection \<open>Unverified email under a mandatory policy\<close>

text \<open>
  C2 (amended): when authentication, session fetch and credential exchange succeed, email
  verification is mandatory under the config and the fetched \<^verbatim>\<open>email_verified\<close> is not the
  string \<^verbatim>\<open>"true"\<close>, authenticate resolves with the Outcome that the reply to the
  verification-code request selects: EmailVerificationRequired when the code has to be
  entered, EmailVerificationFailed with the directory's message when the request fails,
  and LoggedIn when the request reports that no further input is needed.
\<close>

theorem authenticate_unverified_email:
  assumes "sdk_authenticateUser sv (CognitoUser username pool)
             (AuthenticationDetails username password) (remote w) = (AuthOnSuccess result, s1)"
    and "sdk_getSession sv (CognitoUser username pool) s1 = (Inr session, s2)"
    and "buildLogins username (getJwtToken session) config = Inr logins"
    and "sdk_refresh sv logins s2 = (None, s3)"
    and "sdk_getUserAttributes sv (CognitoUser username pool) s3 = (Inr fetched, s4)"
    and "emailVerificationIsMandatory config"
    and "get_prop (collectAttributes fetched []) ''email_verified'' \<noteq> JStr ''true''"
    and "sdk_getAttributeVerificationCode sv (CognitoUser username pool) ''email'' s4 = (reply, s5)"
  shows "fst (authenticate sv username password pool config w) =
           Resolved
             (case reply of
                CodeOnSuccess \<Rightarrow> LoggedIn (CognitoUser username pool) (collectAttributes fetched [])
              | CodeInputVerificationCode \<Rightarrow>
                  EmailVerificationRequired (CognitoUser username pool) (collectAttributes fetched [])
              | CodeOnFailure error \<Rightarrow>
                  EmailVerificationFailed (CognitoUser username pool) (Message (message error))
                    (collectAttributes fetched []))"
  using assms
  by (simp add: authenticate_onSuccess performLogin_federated loginOrVerifyEmail_unverified
        then_settle_simps resolve_def)

theorem authenticate_unverified_email_witness:
  "emailVerificationIsMandatory (Some example_config)
   \<and> get_prop (collectAttributes fetched_list []) ''email_verified'' \<noteq> JStr ''true''
   \<and> fst (authenticate example_services ''alice'' ''pw'' example_pool (Some example_config) start) =
       Resolved (EmailVerificationRequired alice fetched_attributes)"
proof -
  have auth: "sdk_authenticateUser example_services (CognitoUser ''alice'' example_pool)
                (AuthenticationDetails ''alice'' ''pw'') (remote start) =
              (AuthOnSuccess (Session ''jwt''), ())"
    by (simp add: scenario_defs)
  have session: "sdk_getSession example_services (CognitoUser ''alice'' example_pool) ()
                   = (Inr (Session ''jwt''), ())"
    by (simp add: scenario_defs)
  have logins: "buildLogins ''alice'' (getJwtToken (Session ''jwt'')) (Some example_config)
                  = Inr example_logins"
    by (simp add: buildLogins_def template_def scenario_defs)
  have refresh: "sdk_refresh example_services example_logins () = (None, ())"
    by (simp add: scenario_defs)
  have fetch: "sdk_getUserAttributes example_services (CognitoUser ''alice'' example_pool) ()
                 = (Inr fetched_list, ())"
    by (simp add: scenario_defs)
  have mandatory: "emailVerificationIsMandatory (Some example_config)"
    by (simp add: emailVerificationIsMandatory_def scenario_defs)
  have unverified:
    "get_prop (collectAttributes fetched_list []) ''email_verified'' \<noteq> JStr ''true''"
    by (simp add: flow_defs scenario_defs)
  have code: "sdk_getAttributeVerificationCode example_services
                (CognitoUser ''alice'' example_pool) ''email'' () = (CodeInputVerificationCode, ())"
    by (simp add: scenario_defs)
  show ?thesis
    using mandatory unverified
      authenticate_unverified_email [OF auth session logins refresh fetch mandatory unverified code]
    by (simp add: scenario_defs object_defs)
qed

text \<open>
  The claim as written fails where the code request reports that no further input is
  needed: the policy is mandatory, the fetched \<^verbatim>\<open>email_verified\<close> is \<^verbatim>\<open>"false"\<close>, and
  authenticate resolves LoggedIn.
\<close>

theorem authenticate_unverified_email_counterexample:
  "emailVerificationIsMandatory (Some example_config)
   \<and> get_prop fetched_attributes ''email_verified'' \<noteq> JStr ''true''
   \<and> authenticate services_no_input_needed ''alice'' ''pw'' example_pool (Some example_config)
        start =
      (Resolved (LoggedIn alice fetched_attributes),
       \<lparr>calls = [Call_authenticateUser alice alice_creds, Call_getSession alice,
                 Call_refresh example_logins, Call_getUserAttributes alice,
                 Call_getAttributeVerificationCode alice ''email''],
        remote = ()\<rparr>)"
  by (simp add: flow_defs promise_defs scenario_defs)

subsection \<open>A failed attribute fetch inside the gate\<close>

text \<open>
  C3 (the code departs from the claim): the claim is that loginOrVerifyEmail rejects with
  the directory's message when the attribute fetch fails. getUserAttributes does reject
  with the message, but loginOrVerifyEmail chains on it with \<^verbatim>\<open>then\<close> and one handler inside
  an executor that only takes \<^verbatim>\<open>resolve\<close>, so its own promise is neither rejected nor
  resolved (\<open>loginOrVerifyEmail_fetch_failure\<close> for every directory). The run below is
  one such fetch failure.
\<close>

theorem loginOrVerifyEmail_fetch_failure_pending:
  "getUserAttributes services_fetch_fails alice start =
     (Rejected (Message ''Network error''),
      \<lparr>calls = [Call_getUserAttributes alice], remote = ()\<rparr>)
   \<and> loginOrVerifyEmail services_fetch_fails alice (Some example_config) start =
     (Pending, \<lparr>calls = [Call_getUserAttributes alice], remote = ()\<rparr>)"
  by (simp add: flow_defs promise_defs scenario_defs)

subsection \<open>A failed credential exchange\<close>

text \<open>
  C4: when authentication and session fetch succeed and the refresh of the identity
  credentials fails, authenticate resolves LoginFailure with the authenticated user and
  the message of the exchange service; the attributes are not fetched and no code is
  requested.
\<close>

theorem authenticate_federation_failure:
  assumes "sdk_authenticateUser sv (CognitoUser username pool)
             (AuthenticationDetails username password) (remote w) = (AuthOnSuccess result, s1)"
    and "sdk_getSession sv (CognitoUser username pool) s1 = (Inr session, s2)"
    and "buildLogins username (getJwtToken session) config = Inr logins"
    and "sdk_refresh sv logins s2 = (Some error, s3)"
  shows "authenticate sv username password pool config w =
           (Resolved (LoginFailure (CognitoUser username pool) (Message (message error))),
            \<lparr>calls = calls w @ [Call_authenticateUser (CognitoUser username pool)
                                  (AuthenticationDetails username password),
                                Call_getSession (CognitoUser username pool),
                                Call_refresh logins],
             remote = s3\<rparr>)"
  using assms
  by (simp add: authenticate_onSuccess performLogin_refresh_failure then_settle_simps resolve_def)

theorem authenticate_federation_failure_witness:
  "authenticate services_exchange_refused ''alice'' ''pw'' example_pool (Some example_config)
     start =
   (Resolved (LoginFailure alice (Message ''Invalid login token.'')),
    \<lparr>calls = [Call_authenticateUser alice alice_creds, Call_getSession alice,
              Call_refresh example_logins],
     remote = ()\<rparr>)"
proof -
  have auth: "sdk_authenticateUser services_exchange_refused (CognitoUser ''alice'' example_pool)
                (AuthenticationDetails ''alice'' ''pw'') (remote start) =
              (AuthOnSuccess (Session ''jwt''), ())"
    by (simp add: scenario_defs)
  have session: "sdk_getSession services_exchange_refused (CognitoUser ''alice'' example_pool) ()
                   = (Inr (Session ''jwt''), ())"
    by (simp add: scenario_defs)
  have logins: "buildLogins ''alice'' (getJwtToken (Session ''jwt'')) (Some example_config)
                  = Inr example_logins"
    by (simp add: buildLogins_def template_def scenario_defs)
  have refresh: "sdk_refresh services_exchange_refused example_logins () =
                   (Some \<lparr>code = ''NotAuthorizedException'', message = ''Invalid login token.''\<rparr>, ())"
    by (simp add: scenario_defs)
  show ?thesis
    using authenticate_federation_failure [OF auth session logins refresh]
    by (simp add: scenario_defs)
qed

subsection \<open>A failed directory authentication\<close>

text \<open>
  C5 (the code departs from the claim): the claim is that a directory authentication
  failure with the code \<^verbatim>\<open>UserNotConfirmedException\<close> yields ConfirmationRequired with the
  user handle and not LoginFailure, and that every other failure yields LoginFailure with
  the directory's message. The authenticate of the authentication flows does so for
  every directory (\<open>authenticate_onFailure\<close>). The authenticate of Login.jsx, whose
  table of callbacks the claim also rests on, does not look at the code and dispatches
  LoginFailure for every failure (\<open>Login_authenticate_onFailure\<close>). The run below is
  one unconfirmed account through both, whatever \<^verbatim>\<open>postLoginDispatch\<close> does.
\<close>

theorem Login_authenticate_unconfirmed:
  "authenticate services_unconfirmed ''alice'' ''pw'' example_pool (Some example_config) start =
     (Resolved (ConfirmationRequired alice),
      \<lparr>calls = [Call_authenticateUser alice alice_creds], remote = ()\<rparr>)
   \<and> Login_authenticate services_unconfirmed postLoginDispatch ''alice'' ''pw'' example_pool
       (Some example_config) start =
     ([LoginFailure alice (Message ''User is not confirmed.'')],
      \<lparr>calls = [Call_authenticateUser alice alice_creds], remote = ()\<rparr>)"
  by (simp add: authenticate_def Login_authenticate_def promise_defs Let_def scenario_defs)

subsection \<open>Registration\<close>

text \<open>
  C6: after the sign-up request, registerUser rejects with the directory's message when
  the sign-up fails; resolves ConfirmationRequired with the new user handle, having made
  no call but the sign-up, when the result has \<^verbatim>\<open>userConfirmed: false\<close>; and otherwise
  is the authentication flow run with the same username, password, pool and config, whose
  Outcome it returns.
\<close>

theorem registerUser_outcome:
  "(sdk_signUp sv pool username password (mkAttrList attributes) (remote w) = (Inl err, s') \<longrightarrow>
      registerUser sv pool config username password attributes w =
        (Rejected (Message (message err)),
         \<lparr>calls = calls w @ [Call_signUp pool username password (mkAttrList attributes)],
          remote = s'\<rparr>))
   \<and> (sdk_signUp sv pool username password (mkAttrList attributes) (remote w) = (Inr result, s')
        \<and> userConfirmed result = JBool False \<longrightarrow>
      registerUser sv pool config username password attributes w =
        (Resolved (ConfirmationRequired (result_user result)),
         \<lparr>calls = calls w @ [Call_signUp pool username password (mkAttrList attributes)],
          remote = s'\<rparr>))
   \<and> (sdk_signUp sv pool username password (mkAttrList attributes) (remote w) = (Inr result, s')
        \<and> userConfirmed result \<noteq> JBool False \<longrightarrow>
      registerUser sv pool config username password attributes w =
        authenticate sv username password pool config
          \<lparr>calls = calls w @ [Call_signUp pool username password (mkAttrList attributes)],
           remote = s'\<rparr>)"
  by (simp add: registerUser_def invoke_def resolve_def reject_def)

theorem registerUser_outcome_witness:
  "registerUser services_signUp_refused example_pool (Some example_config) ''alice'' ''pw''
     example_attributes start =
     (Rejected (Message ''User already exists''),
      \<lparr>calls = [Call_signUp example_pool ''alice'' ''pw'' (mkAttrList example_attributes)],
       remote = ()\<rparr>)
   \<and> registerUser services_signUp_unconfirmed example_pool (Some example_config) ''alice'' ''pw''
       example_attributes start =
     (Resolved (ConfirmationRequired alice),
      \<lparr>calls = [Call_signUp example_pool ''alice'' ''pw'' (mkAttrList example_attributes)],
       remote = ()\<rparr>)
   \<and> registerUser example_services example_pool (Some example_config) ''alice'' ''pw''
       example_attributes start =
     authenticate example_services ''alice'' ''pw'' example_pool (Some example_config)
       \<lparr>calls = [Call_signUp example_pool ''alice'' ''pw'' (mkAttrList example_attributes)],
        remote = ()\<rparr>"
proof -
  have refused:
    "sdk_signUp services_signUp_refused example_pool ''alice'' ''pw''
       (mkAttrList example_attributes) (remote start) =
     (Inl \<lparr>code = ''UsernameExistsException'', message = ''User already exists''\<rparr>, ())"
    by (simp add: scenario_defs)
  have unconfirmed:
    "sdk_signUp services_signUp_unconfirmed example_pool ''alice'' ''pw''
       (mkAttrList example_attributes) (remote start) =
     (Inr (SignUpResult (JBool False) alice), ())"
    by (simp add: scenario_defs)
  have confirmed:
    "sdk_signUp example_services example_pool ''alice'' ''pw''
       (mkAttrList example_attributes) (remote start) =
     (Inr (SignUpResult (JBool True) alice), ())"
    by (simp add: scenario_defs)
  show ?thesis
    using refused unconfirmed confirmed
      registerUser_outcome [of services_signUp_refused example_pool "''alice''" "''pw''"
        example_attributes start
        "\<lparr>code = ''UsernameExistsException'', message = ''User already exists''\<rparr>" "()"
        "Some example_config"]
      registerUser_outcome [of services_signUp_unconfirmed example_pool "''alice''" "''pw''"
        example_attributes start _ "()" "Some example_config" "SignUpResult (JBool False) alice"]
      registerUser_outcome [of example_services example_pool "''alice''" "''pw''"
        example_attributes start _ "()" "Some example_config" "SignUpResult (JBool True) alice"]
    by (simp add: start_def)
qed

subsection \<open>The default of the verification policy\<close>

text \<open>
  C7: emailVerificationIsMandatory is true for an undefined config and for a config
  object without the \<^verbatim>\<open>mandatoryEmailVerification\<close> field, and it is false exactly when
  the config is an object whose \<^verbatim>\<open>mandatoryEmailVerification\<close> is the boolean false.
\<close>

theorem emailVerificationIsMandatory_fail_closed:
  "emailVerificationIsMandatory None
   \<and> (mandatoryEmailVerification c = JUndefined \<longrightarrow> emailVerificationIsMandatory (Some c))
   \<and> (\<not> emailVerificationIsMandatory config
        \<longleftrightarrow> (\<exists>c'. config = Some c' \<and> mandatoryEmailVerification c' = JBool False))"
  by (auto simp: emailVerificationIsMandatory_def split: option.splits)

theorem emailVerificationIsMandatory_fail_closed_witness:
  "mandatoryEmailVerification example_config = JUndefined
   \<and> emailVerificationIsMandatory (Some example_config)
   \<and> mandatoryEmailVerification optional_config = JBool False
   \<and> \<not> emailVerificationIsMandatory (Some optional_config)"
proof -
  have absent: "mandatoryEmailVerification example_config = JUndefined"
    by (simp add: example_config_def)
  have explicit: "mandatoryEmailVerification optional_config = JBool False"
    by (simp add: optional_config_def)
  show ?thesis
    using absent explicit
      emailVerificationIsMandatory_fail_closed [of example_config "Some optional_config"]
    by auto
qed

subsection \<open>Updating attributes\<close>

text \<open>
  C8: after the update request, updateAttributes rejects with the directory's message
  when the update fails; is the email-verification gate run again, whose result it
  returns, when the update succeeds and verification is mandatory under the config; and
  resolves AttributesUpdated with the submitted attribute map, having made no call but
  the update, when the update succeeds and verification is not mandatory.
\<close>

theorem updateAttributes_outcome:
  "(sdk_updateAttributes sv user (mkAttrList attributes) (remote w) = (Some err, s') \<longrightarrow>
      updateAttributes sv user attributes config w =
        (Rejected (Message (message err)),
         \<lparr>calls = calls w @ [Call_updateAttributes user (mkAttrList attributes)], remote = s'\<rparr>))
   \<and> (sdk_updateAttributes sv user (mkAttrList attributes) (remote w) = (None, s')
        \<and> emailVerificationIsMandatory config \<longrightarrow>
      updateAttributes sv user attributes config w =
        loginOrVerifyEmail sv user config
          \<lparr>calls = calls w @ [Call_updateAttributes user (mkAttrList attributes)], remote = s'\<rparr>)
   \<and> (sdk_updateAttributes sv user (mkAttrList attributes) (remote w) = (None, s')
        \<and> \<not> emailVerificationIsMandatory config \<longrightarrow>
      updateAttributes sv user attributes config w =
        (Resolved (AttributesUpdated attributes),
         \<lparr>calls = calls w @ [Call_updateAttributes user (mkAttrList attributes)], remote = s'\<rparr>))"
  by (simp add: updateAttributes_def invoke_def resolve_def reject_def Let_def)

theorem updateAttributes_outcome_witness:
  "updateAttributes services_update_refused alice example_attributes (Some example_config) start =
     (Rejected (Message ''Invalid email''),
      \<lparr>calls = [Call_updateAttributes alice (mkAttrList example_attributes)], remote = ()\<rparr>)
   \<and> updateAttributes example_services alice example_attributes (Some example_config) start =
     loginOrVerifyEmail example_services alice (Some example_config)
       \<lparr>calls = [Call_updateAttributes alice (mkAttrList example_attributes)], remote = ()\<rparr>
   \<and> updateAttributes example_services alice example_attributes (Some optional_config) start =
     (Resolved (AttributesUpdated example_attributes),
      \<lparr>calls = [Call_updateAttributes alice (mkAttrList example_attributes)], remote = ()\<rparr>)"
proof -
  have refused:
    "sdk_updateAttributes services_update_refused alice (mkAttrList example_attributes)
       (remote start) =
     (Some \<lparr>code = ''InvalidParameterException'', message = ''Invalid email''\<rparr>, ())"
    by (simp add: scenario_defs)
  have accepted:
    "sdk_updateAttributes example_services alice (mkAttrList example_attributes) (remote start) =
     (None, ())"
    by (simp add: scenario_defs)
  have mandatory: "emailVerificationIsMandatory (Some example_config)"
    by (simp add: emailVerificationIsMandatory_def example_config_def)
  have optional: "\<not> emailVerificationIsMandatory (Some optional_config)"
    by (simp add: emailVerificationIsMandatory_def optional_config_def)
  show ?thesis
    using refused accepted mandatory optional
      updateAttributes_outcome [of services_update_refused alice example_attributes start
        "\<lparr>code = ''InvalidParameterException'', message = ''Invalid email''\<rparr>" "()"
        "Some example_config"]
      updateAttributes_outcome [of example_services alice example_attributes start _ "()"
        "Some example_config"]
      updateAttributes_outcome [of example_services alice example_attributes start _ "()"
        "Some optional_config"]
    by (simp add: start_def)
qed

subsection \<open>The attribute codec round trip\<close>

text \<open>
  C9 (amended): for an attribute map with distinct keys, none of which is \<^verbatim>\<open>__proto__\<close>,
  encoding it with mkAttrList and collecting the list again, as getUserAttributes does,
  gives back the same map: the same key set, each key once, with equal values. When the
  keys are listed in property order, as \<^verbatim>\<open>Object.keys\<close> does, the result is the same list,
  and getUserAttributes resolves with it when the directory echoes the encoded list.
\<close>

theorem attribute_roundtrip:
  assumes "distinct (Object_keys m)" and "''__proto__'' \<notin> set (Object_keys m)"
  shows "map_of (collectAttributes (mkAttrList m) []) = map_of m
         \<and> set (Object_keys (collectAttributes (mkAttrList m) [])) = set (Object_keys m)
         \<and> distinct (Object_keys (collectAttributes (mkAttrList m) []))
         \<and> (in_property_order (Object_keys m) \<longrightarrow>
              collectAttributes (mkAttrList m) [] = m
              \<and> (sdk_getUserAttributes sv user (remote w) = (Inr (mkAttrList m), s') \<longrightarrow>
                   fst (getUserAttributes sv user w) = Resolved m))"
proof -
  let ?decoded = "collectAttributes (mkAttrList m) []"
  from assms have keys: "distinct (map fst m)" and names: "''__proto__'' \<notin> fst ` set m"
    by (simp_all add: Object_keys_def)
  have same: "map_of ?decoded = map_of m"
    using assignAttributes_map [OF keys names, of "\<lparr>own = [], proto = ObjectPrototype\<rparr>"]
    by (simp add: collectAttributes_def mkAttrList_pairs [OF keys])
  then have "dom (map_of ?decoded) = dom (map_of m)" by simp
  then have keyset: "set (Object_keys ?decoded) = set (Object_keys m)"
    by (simp add: dom_map_of_conv_image_fst Object_keys_def)
  have once: "distinct (Object_keys ?decoded)"
    using assignAttributes_distinct [of "\<lparr>own = [], proto = ObjectPrototype\<rparr>" "mkAttrList m"]
    by (simp add: collectAttributes_def Object_keys_def)
  have exact: "?decoded = m" if "in_property_order (Object_keys m)"
    using assignAttributes_in_order [of "[]" m ObjectPrototype] that keys names
    by (simp add: collectAttributes_def mkAttrList_pairs [OF keys] Object_keys_def)
  from same keyset once exact show ?thesis
    by (simp add: getUserAttributes_def invoke_def resolve_def)
qed

theorem attribute_roundtrip_witness:
  "distinct (Object_keys example_attributes)
   \<and> ''__proto__'' \<notin> set (Object_keys example_attributes)
   \<and> in_property_order (Object_keys example_attributes)
   \<and> collectAttributes (mkAttrList example_attributes) [] = example_attributes
   \<and> fst (getUserAttributes echo_services alice echo_start) = Resolved example_attributes"
proof -
  have keys: "distinct (Object_keys example_attributes)"
    by (simp add: Object_keys_def example_attributes_def)
  have names: "''__proto__'' \<notin> set (Object_keys example_attributes)"
    by (simp add: Object_keys_def example_attributes_def)
  have order: "in_property_order (Object_keys example_attributes)"
    by (simp add: Object_keys_def example_attributes_def array_index_def digit_def)
  have echo: "sdk_getUserAttributes echo_services alice (remote echo_start) =
                (Inr (mkAttrList example_attributes), mkAttrList example_attributes)"
    by (simp add: echo_services_def echo_start_def)
  show ?thesis
    using keys names order echo
      attribute_roundtrip [OF keys names, of echo_services alice echo_start
        "mkAttrList example_attributes"]
    by simp
qed

text \<open>
  The claim as written fails for a map that has \<^verbatim>\<open>__proto__\<close> among its own keys: the
  encoded list carries the key, and the assignment in the loop of getUserAttributes
  creates no property for it.
\<close>

theorem attribute_roundtrip_counterexample:
  "distinct (Object_keys proto_attributes)
   \<and> map_of proto_attributes ''__proto__'' = Some (JStr ''a'')
   \<and> mkAttrList proto_attributes =
       [Attribute ''__proto__'' (JStr ''a''), Attribute ''email'' (JStr ''a@b.com'')]
   \<and> collectAttributes (mkAttrList proto_attributes) [] = [(''email'', JStr ''a@b.com'')]"
  by (simp add: proto_attributes_def flow_defs)


subsection \<open>The test on userConfirmed\<close>

text \<open>
  C10: after a successful sign-up whose \<^verbatim>\<open>userConfirmed\<close> is anything but the boolean
  false (absent or undefined, null, a number, a string, true), registerUser is the
  authentication flow: it settles as authenticate does on the submitted credentials, and
  its next remote call after the sign-up is authenticateUser for the submitted username
  and pool with the submitted username and password.
\<close>

theorem registerUser_userConfirmed_strict:
  assumes "sdk_signUp sv pool username password (mkAttrList attributes) (remote w) = (Inr result, s')"
    and "userConfirmed result \<noteq> JBool False"
  shows "fst (registerUser sv pool config username password attributes w) =
           fst (authenticate sv username password pool config
                  \<lparr>calls = calls w @ [Call_signUp pool username password (mkAttrList attributes)],
                   remote = s'\<rparr>)
         \<and> (\<exists>rest. calls (snd (registerUser sv pool config username password attributes w)) =
               calls w @ [Call_signUp pool username password (mkAttrList attributes),
                          Call_authenticateUser (CognitoUser username pool)
                            (AuthenticationDetails username password)] @ rest)"
proof -
  let ?w1 = "\<lparr>calls = calls w @ [Call_signUp pool username password (mkAttrList attributes)],
              remote = s'\<rparr>"
  from assms have eq: "registerUser sv pool config username password attributes w =
                         authenticate sv username password pool config ?w1"
    by (simp add: registerUser_def invoke_def)
  from authenticate_first_call [of sv username password pool config ?w1]
  show ?thesis by (auto simp: eq)
qed

theorem registerUser_userConfirmed_strict_witness:
  "userConfirmed (SignUpResult JUndefined alice) \<noteq> JBool False
   \<and> fst (registerUser services_signUp_no_flag example_pool (Some example_config) ''alice'' ''pw''
            example_attributes start) =
     Resolved (EmailVerificationRequired alice fetched_attributes)"
proof -
  have signUp:
    "sdk_signUp services_signUp_no_flag example_pool ''alice'' ''pw''
       (mkAttrList example_attributes) (remote start) =
     (Inr (SignUpResult JUndefined alice), ())"
    by (simp add: scenario_defs)
  have flag: "userConfirmed (SignUpResult JUndefined alice) \<noteq> JBool False"
    by simp
  have "fst (authenticate services_signUp_no_flag ''alice'' ''pw'' example_pool
               (Some example_config)
               \<lparr>calls = calls start @ [Call_signUp example_pool ''alice'' ''pw''
                                         (mkAttrList example_attributes)],
                remote = ()\<rparr>) =
        Resolved (EmailVerificationRequired alice fetched_attributes)"
    by (simp add: flow_defs promise_defs scenario_defs)
  with flag registerUser_userConfirmed_strict [OF signUp flag, of "Some example_config"]
  show ?thesis by simp
qed

end
